theory Spec2Isabelle
  imports Main
begin

section \<open>The transcribing RNAP of \<open>model/initial_transcription.py\<close>\<close>

text \<open>
  The class \<open>iRNAP\<close> holds ten fields: four mode flags, five integer counters and the
  constant \<open>__max_duplex_length\<close>. Python integers are unbounded, so the counters are
  \<open>int\<close>. Every method mutates the object in place and returns nothing; the model passes
  the object in and returns the mutated object. A raised exception is a value on the left
  of a sum: nothing in the class catches one, so a raise ends the call.
\<close>

record iRNAP =
  RNA_length :: int
  pre_translocated :: bool
  post_translocated :: bool
  paused :: bool
  backtracked :: bool
  iplus1_site :: int
  RNADNA_duplex_length :: int
  scrunched_DNA_size :: int
  free_5prime_RNA_length :: int
  max_duplex_length :: int

text \<open>
  The exceptions the class can raise: a failed \<open>assert\<close>, the \<open>1/0\<close> that follows each
  diagnostic \<open>print\<close>, an index out of the range of a string, and a name that the object
  does not have.
\<close>

datatype error = AssertionError | ZeroDivisionError | IndexError | AttributeError

subsection \<open>SanityCheck\<close>

text \<open>
  One block \<open>if flag: assert a is False; assert b is False; assert c is False\<close>:
  the value says that the block raises nothing.
\<close>

definition mode_block :: "bool \<Rightarrow> bool \<Rightarrow> bool \<Rightarrow> bool \<Rightarrow> bool" where
  "mode_block flag a b c = (if flag then \<not> a \<and> \<not> b \<and> \<not> c else True)"

text \<open>
  Every assertion of \<open>SanityCheck\<close> raises the same \<open>AssertionError\<close> and none has an
  effect, so the method raises exactly when one of them is false.
\<close>

definition SanityCheck :: "iRNAP \<Rightarrow> error + unit" where
  "SanityCheck s =
     (if mode_block (backtracked s) (pre_translocated s) (post_translocated s) (paused s)
       \<and> mode_block (paused s) (pre_translocated s) (post_translocated s) (backtracked s)
       \<and> mode_block (post_translocated s) (pre_translocated s) (backtracked s) (paused s)
       \<and> mode_block (pre_translocated s) (post_translocated s) (backtracked s) (paused s)
       \<and> RNA_length s \<ge> RNADNA_duplex_length s
       \<and> scrunched_DNA_size s < RNA_length s
       \<and> free_5prime_RNA_length s < RNA_length s
       \<and> (if free_5prime_RNA_length s > 0
          then free_5prime_RNA_length s = RNA_length s - RNADNA_duplex_length s else True)
       \<and> (if RNADNA_duplex_length s > max_duplex_length s
          then free_5prime_RNA_length s > 0 else True)
      then Inr () else Inl AssertionError)"

text \<open>The closing \<open>self.SanityCheck()\<close> of a method, on the mutated object.\<close>

definition checked :: "iRNAP \<Rightarrow> error + iRNAP" where
  "checked s = (case SanityCheck s of Inl e \<Rightarrow> Inl e | Inr _ \<Rightarrow> Inr s)"

subsection \<open>Construction\<close>

text \<open>\<open>__init__\<close> stores its arguments and runs \<open>SanityCheck\<close>.\<close>

definition iRNAP_init :: "iRNAP \<Rightarrow> error + iRNAP" where
  "iRNAP_init args = checked args"

text \<open>The default arguments of \<open>__init__\<close>.\<close>

definition iRNAP_default :: iRNAP where
  "iRNAP_default =
     \<lparr> RNA_length = 2, pre_translocated = True, post_translocated = False, paused = False,
       backtracked = False, iplus1_site = 2, RNADNA_duplex_length = 2,
       scrunched_DNA_size = 0, free_5prime_RNA_length = 0, max_duplex_length = 10 \<rparr>"

subsection \<open>Active-site lookup\<close>

text \<open>
  \<open>its[i]\<close> on a Python string: a negative index counts from the end, and an index that
  is still out of range raises \<open>IndexError\<close>.
\<close>

definition str_index :: "string \<Rightarrow> int \<Rightarrow> error + char" where
  "str_index its i =
     (let n = int (length its); j = (if i < 0 then i + n else i)
      in if 0 \<le> j \<and> j < n then Inr (its ! nat j) else Inl IndexError)"

text \<open>\<open>its[self.iplus1_site-1] + its[self.iplus1_site]\<close>, the left operand first.\<close>

definition GetActiveSiteDinucleotide :: "iRNAP \<Rightarrow> string \<Rightarrow> error + string" where
  "GetActiveSiteDinucleotide s its =
     (case str_index its (iplus1_site s - 1) of
        Inl e \<Rightarrow> Inl e
      | Inr a \<Rightarrow> (case str_index its (iplus1_site s) of
                   Inl e \<Rightarrow> Inl e
                 | Inr b \<Rightarrow> Inr [a, b]))"

text \<open>
  The names an \<open>iRNAP\<close> object answers to: the fields set by \<open>__init__\<close> (the private one
  under its mangled name) and the methods of the class.
\<close>

definition instance_attributes :: "string list" where
  "instance_attributes =
     [''RNA_length'', ''pre_translocated'', ''post_translocated'', ''paused'', ''backtracked'',
      ''iplus1_site'', ''RNADNA_duplex_length'', ''scrunched_DNA_size'',
      ''free_5prime_RNA_length'', ''_iRNAP__max_duplex_length'']"

definition class_attributes :: "string list" where
  "class_attributes =
     [''__init__'', ''__repr__'', ''SanityCheck'', ''GetActiveSiteDinucleotide'',
      ''GetActiveSiteNucleotide'', ''ReverseTranslocate'', ''Translocate'', ''Pause'',
      ''CanBackTrack'', ''Backtrack'', ''CanGrow'', ''GrowRNA'']"

text \<open>
  \<open>self.name(its)\<close> for a sequence query: the lookup of \<open>name\<close> on the object raises
  \<open>AttributeError\<close> when the object has no such name. The only sequence query another
  method can reach this way is \<open>GetActiveSiteDinucleotide\<close>.
\<close>

definition call_sequence_query :: "string \<Rightarrow> iRNAP \<Rightarrow> string \<Rightarrow> error + string" where
  "call_sequence_query name s its =
     (if name \<in> set (instance_attributes @ class_attributes)
        \<and> name = ''GetActiveSiteDinucleotide''
      then GetActiveSiteDinucleotide s its
      else Inl AttributeError)"

text \<open>\<open>self.get_active_site_dinucleotide(its)[-1]\<close>.\<close>

definition GetActiveSiteNucleotide :: "iRNAP \<Rightarrow> string \<Rightarrow> error + char" where
  "GetActiveSiteNucleotide s its =
     (case call_sequence_query ''get_active_site_dinucleotide'' s its of
        Inl e \<Rightarrow> Inl e
      | Inr d \<Rightarrow> str_index d (- 1))"

subsection \<open>Transitions\<close>

definition ReverseTranslocate :: "iRNAP \<Rightarrow> error + iRNAP" where
  "ReverseTranslocate s =
     (case SanityCheck s of
        Inl e \<Rightarrow> Inl e
      | Inr _ \<Rightarrow>
          if pre_translocated s then Inl ZeroDivisionError
          else checked (s\<lparr>pre_translocated := True, post_translocated := False\<rparr>))"

definition Translocate :: "iRNAP \<Rightarrow> error + iRNAP" where
  "Translocate s =
     (case SanityCheck s of
        Inl e \<Rightarrow> Inl e
      | Inr _ \<Rightarrow>
          if post_translocated s then Inl ZeroDivisionError
          else checked (s\<lparr>pre_translocated := False, post_translocated := True\<rparr>))"

definition Pause :: "iRNAP \<Rightarrow> error + iRNAP" where
  "Pause s =
     (case SanityCheck s of
        Inl e \<Rightarrow> Inl e
      | Inr _ \<Rightarrow>
          if paused s then Inl ZeroDivisionError
          else if pre_translocated s
               then checked (s\<lparr>paused := True, pre_translocated := False\<rparr>)
               else Inl ZeroDivisionError)"

definition CanBackTrack :: "iRNAP \<Rightarrow> error + bool" where
  "CanBackTrack s =
     (case SanityCheck s of
        Inl e \<Rightarrow> Inl e
      | Inr _ \<Rightarrow> Inr (paused s \<or> backtracked s))"

text \<open>The assignments of \<open>Backtrack\<close> between its two checks, in the order of the source.\<close>

definition Backtrack_update :: "iRNAP \<Rightarrow> iRNAP" where
  "Backtrack_update s =
     (let s1 = (if paused s then s\<lparr>paused := False, backtracked := True\<rparr> else s);
          s2 = s1\<lparr>iplus1_site := iplus1_site s1 - 1\<rparr>;
          s3 = s2\<lparr>scrunched_DNA_size := scrunched_DNA_size s2 - 1\<rparr>;
          s4 = (if RNADNA_duplex_length s3 \<le> max_duplex_length s3
                then s3\<lparr>RNADNA_duplex_length := RNADNA_duplex_length s3 - 1\<rparr> else s3)
      in if free_5prime_RNA_length s4 > 0
         then s4\<lparr>free_5prime_RNA_length := free_5prime_RNA_length s4 - 1\<rparr> else s4)"

definition Backtrack :: "iRNAP \<Rightarrow> error + iRNAP" where
  "Backtrack s =
     (case SanityCheck s of
        Inl e \<Rightarrow> Inl e
      | Inr _ \<Rightarrow>
          (case CanBackTrack s of
             Inl e \<Rightarrow> Inl e
           | Inr can \<Rightarrow>
               if can then checked (Backtrack_update s) else Inl ZeroDivisionError))"

definition CanGrow :: "iRNAP \<Rightarrow> bool" where
  "CanGrow s =
     (let excluded_from_growing = (pre_translocated s \<and> backtracked s \<and> paused s)
      in if excluded_from_growing \<and> post_translocated s then False else True)"

text \<open>The assignments of \<open>GrowRNA\<close> between its two checks, in the order of the source.\<close>

definition GrowRNA_update :: "iRNAP \<Rightarrow> iRNAP" where
  "GrowRNA_update s =
     (let s1 = s\<lparr>iplus1_site := iplus1_site s + 1\<rparr>;
          s2 = s1\<lparr>RNA_length := RNA_length s1 + 1\<rparr>;
          s3 = s2\<lparr>scrunched_DNA_size := scrunched_DNA_size s2 + 1\<rparr>;
          s4 = (if RNA_length s3 \<le> max_duplex_length s3
                then s3\<lparr>RNADNA_duplex_length := RNA_length s3\<rparr> else s3)
      in if RNADNA_duplex_length s4 = max_duplex_length s4
         then s4\<lparr>free_5prime_RNA_length := free_5prime_RNA_length s4 + 1\<rparr> else s4)"

definition GrowRNA :: "iRNAP \<Rightarrow> error + iRNAP" where
  "GrowRNA s =
     (case SanityCheck s of
        Inl e \<Rightarrow> Inl e
      | Inr _ \<Rightarrow>
          if CanGrow s then checked (GrowRNA_update s) else Inl ZeroDivisionError)"

subsection \<open>Sequences of transitions\<close>

datatype transition = TTranslocate | TReverseTranslocate | TPause | TBacktrack | TGrowRNA

fun step :: "transition \<Rightarrow> iRNAP \<Rightarrow> error + iRNAP" where
  "step TTranslocate s = Translocate s"
| "step TReverseTranslocate s = ReverseTranslocate s"
| "step TPause s = Pause s"
| "step TBacktrack s = Backtrack s"
| "step TGrowRNA s = GrowRNA s"

text \<open>A driver calling the transitions one after the other; the first raise ends it.\<close>

fun run :: "transition list \<Rightarrow> iRNAP \<Rightarrow> error + iRNAP" where
  "run [] s = Inr s"
| "run (t # ts) s = (case step t s of Inl e \<Rightarrow> Inl e | Inr s' \<Rightarrow> run ts s')"

text \<open>The result of every call of the driver, up to and including the first raise.\<close>

fun trace :: "transition list \<Rightarrow> iRNAP \<Rightarrow> (error + iRNAP) list" where
  "trace [] s = []"
| "trace (t # ts) s =
     (case step t s of Inl e \<Rightarrow> [Inl e] | Inr s' \<Rightarrow> Inr s' # trace ts s')"

text \<open>
  The test each transition makes itself before it mutates anything, the one whose failure
  is announced by a \<open>print\<close> and \<open>1/0\<close>.
\<close>

fun legal :: "transition \<Rightarrow> iRNAP \<Rightarrow> bool" where
  "legal TTranslocate s = (\<not> post_translocated s)"
| "legal TReverseTranslocate s = (\<not> pre_translocated s)"
| "legal TPause s = (\<not> paused s \<and> pre_translocated s)"
| "legal TBacktrack s = (paused s \<or> backtracked s)"
| "legal TGrowRNA s = CanGrow s"

text \<open>
  \<open>invoked_when P ts s\<close>: in the run of \<open>ts\<close> from \<open>s\<close>, every transition that is called
  is called on an object where \<open>P\<close> holds for it. A transition after a raise is never
  called.
\<close>

fun invoked_when :: "(transition \<Rightarrow> iRNAP \<Rightarrow> bool) \<Rightarrow> transition list \<Rightarrow> iRNAP \<Rightarrow> bool" where
  "invoked_when P [] s = True"
| "invoked_when P (t # ts) s =
     (P t s \<and> (case step t s of Inl e \<Rightarrow> True | Inr s' \<Rightarrow> invoked_when P ts s'))"

subsection \<open>Predicates the properties are stated with\<close>

text \<open>The number of mode flags that are set.\<close>

definition mode_count :: "iRNAP \<Rightarrow> nat" where
  "mode_count s =
     of_bool (pre_translocated s) + of_bool (post_translocated s)
       + of_bool (paused s) + of_bool (backtracked s)"

text \<open>The two halves of \<open>SanityCheck\<close>: its four mode blocks, and its five assertions on the counters.\<close>

definition modes_ok :: "iRNAP \<Rightarrow> bool" where
  "modes_ok s =
     (mode_block (backtracked s) (pre_translocated s) (post_translocated s) (paused s)
       \<and> mode_block (paused s) (pre_translocated s) (post_translocated s) (backtracked s)
       \<and> mode_block (post_translocated s) (pre_translocated s) (backtracked s) (paused s)
       \<and> mode_block (pre_translocated s) (post_translocated s) (backtracked s) (paused s))"

definition counts_ok :: "iRNAP \<Rightarrow> bool" where
  "counts_ok s =
     (RNA_length s \<ge> RNADNA_duplex_length s
       \<and> scrunched_DNA_size s < RNA_length s
       \<and> free_5prime_RNA_length s < RNA_length s
       \<and> (if free_5prime_RNA_length s > 0
          then free_5prime_RNA_length s = RNA_length s - RNADNA_duplex_length s else True)
       \<and> (if RNADNA_duplex_length s > max_duplex_length s
          then free_5prime_RNA_length s > 0 else True))"

text \<open>
  The six invariants as the specification lists them: exactly one mode flag is set, and
  the five relations between the counters. This is the specification's wording, to be
  compared with \<open>SanityCheck\<close>, which also accepts an object with no flag set.
\<close>

definition invariants :: "iRNAP \<Rightarrow> bool" where
  "invariants s =
     (mode_count s = 1
       \<and> RNA_length s \<ge> RNADNA_duplex_length s
       \<and> scrunched_DNA_size s < RNA_length s
       \<and> free_5prime_RNA_length s < RNA_length s
       \<and> (if free_5prime_RNA_length s > 0
          then free_5prime_RNA_length s = RNA_length s - RNADNA_duplex_length s else True)
       \<and> (if RNADNA_duplex_length s > max_duplex_length s
          then free_5prime_RNA_length s > 0 else True))"

text \<open>
  The objects on which a transition runs to its end: \<open>Translocate\<close> and \<open>Pause\<close> from
  Pre-translocated, \<open>ReverseTranslocate\<close> from Post-translocated, \<open>Backtrack\<close> from Paused
  or Backtracked with no free 5' end, \<open>GrowRNA\<close> with no free 5' end while the grown RNA
  stays shorter than the full duplex, or with the duplex at full length and the free
  5' end equal to the overhang.
\<close>

fun enabled :: "transition \<Rightarrow> iRNAP \<Rightarrow> bool" where
  "enabled TTranslocate s = pre_translocated s"
| "enabled TReverseTranslocate s = post_translocated s"
| "enabled TPause s = pre_translocated s"
| "enabled TBacktrack s = ((paused s \<or> backtracked s) \<and> free_5prime_RNA_length s = 0)"
| "enabled TGrowRNA s =
     ((free_5prime_RNA_length s = 0 \<and> RNA_length s + 1 < max_duplex_length s)
      \<or> (RNADNA_duplex_length s = max_duplex_length s
          \<and> free_5prime_RNA_length s = RNA_length s - RNADNA_duplex_length s))"

text \<open>Every call of a trace returned, and returned an object satisfying the invariants.\<close>

fun all_hold :: "(error + iRNAP) list \<Rightarrow> bool" where
  "all_hold [] = True"
| "all_hold (Inl e # rs) = False"
| "all_hold (Inr s # rs) = (invariants s \<and> all_hold rs)"

text \<open>
  No free 5' end below a full duplex, unless the object has backtracked: what a
  completed \<open>GrowRNA\<close> establishes and the other transitions keep.
\<close>

definition no_stray_free_end :: "iRNAP \<Rightarrow> bool" where
  "no_stray_free_end s =
     (backtracked s \<or> RNADNA_duplex_length s \<ge> max_duplex_length s
      \<or> free_5prime_RNA_length s \<le> 0)"

section \<open>SanityCheck and the transitions in closed form\<close>

lemma SanityCheck_iff: "(SanityCheck s = Inr u) = (modes_ok s \<and> counts_ok s)"
  by (simp add: SanityCheck_def modes_ok_def counts_ok_def)

lemma SanityCheck_cases:
  "SanityCheck s = (if modes_ok s \<and> counts_ok s then Inr () else Inl AssertionError)"
  by (simp add: SanityCheck_def modes_ok_def counts_ok_def)

lemma checked_eq:
  "checked s = (if modes_ok s \<and> counts_ok s then Inr s else Inl AssertionError)"
  by (simp add: checked_def SanityCheck_cases)

lemma modes_ok_count: "modes_ok s = (mode_count s \<le> 1)"
  by (simp add: modes_ok_def mode_block_def mode_count_def)

lemma counts_ok_flags [simp]:
  "counts_ok (s\<lparr>pre_translocated := a\<rparr>) = counts_ok s"
  "counts_ok (s\<lparr>post_translocated := a\<rparr>) = counts_ok s"
  "counts_ok (s\<lparr>paused := a\<rparr>) = counts_ok s"
  "counts_ok (s\<lparr>backtracked := a\<rparr>) = counts_ok s"
  by (simp_all add: counts_ok_def)

lemma modes_ok_unfold:
  "modes_ok s =
     (\<not> (pre_translocated s \<and> post_translocated s) \<and> \<not> (pre_translocated s \<and> paused s)
      \<and> \<not> (pre_translocated s \<and> backtracked s) \<and> \<not> (post_translocated s \<and> paused s)
      \<and> \<not> (post_translocated s \<and> backtracked s) \<and> \<not> (paused s \<and> backtracked s))"
  by (auto simp add: modes_ok_def mode_block_def)

lemma Translocate_eq:
  "Translocate s =
     (if \<not> (modes_ok s \<and> counts_ok s) then Inl AssertionError
      else if post_translocated s then Inl ZeroDivisionError
      else if paused s \<or> backtracked s then Inl AssertionError
      else Inr (s\<lparr>pre_translocated := False, post_translocated := True\<rparr>))"
  by (auto simp add: Translocate_def SanityCheck_cases checked_eq modes_ok_unfold)

lemma ReverseTranslocate_eq:
  "ReverseTranslocate s =
     (if \<not> (modes_ok s \<and> counts_ok s) then Inl AssertionError
      else if pre_translocated s then Inl ZeroDivisionError
      else if paused s \<or> backtracked s then Inl AssertionError
      else Inr (s\<lparr>pre_translocated := True, post_translocated := False\<rparr>))"
  by (auto simp add: ReverseTranslocate_def SanityCheck_cases checked_eq modes_ok_unfold)

lemma Pause_eq:
  "Pause s =
     (if \<not> (modes_ok s \<and> counts_ok s) then Inl AssertionError
      else if paused s then Inl ZeroDivisionError
      else if pre_translocated s then Inr (s\<lparr>paused := True, pre_translocated := False\<rparr>)
      else Inl ZeroDivisionError)"
  by (auto simp add: Pause_def SanityCheck_cases checked_eq modes_ok_unfold)

lemma Backtrack_update_sel:
  "pre_translocated (Backtrack_update s) = pre_translocated s"
  "post_translocated (Backtrack_update s) = post_translocated s"
  "paused (Backtrack_update s) = False"
  "backtracked (Backtrack_update s) = (paused s \<or> backtracked s)"
  "RNA_length (Backtrack_update s) = RNA_length s"
  "max_duplex_length (Backtrack_update s) = max_duplex_length s"
  "iplus1_site (Backtrack_update s) = iplus1_site s - 1"
  "scrunched_DNA_size (Backtrack_update s) = scrunched_DNA_size s - 1"
  "RNADNA_duplex_length (Backtrack_update s) =
     (if RNADNA_duplex_length s \<le> max_duplex_length s
      then RNADNA_duplex_length s - 1 else RNADNA_duplex_length s)"
  "free_5prime_RNA_length (Backtrack_update s) =
     (if free_5prime_RNA_length s > 0
      then free_5prime_RNA_length s - 1 else free_5prime_RNA_length s)"
  by (simp_all add: Backtrack_update_def Let_def)

lemma GrowRNA_update_sel:
  "pre_translocated (GrowRNA_update s) = pre_translocated s"
  "post_translocated (GrowRNA_update s) = post_translocated s"
  "paused (GrowRNA_update s) = paused s"
  "backtracked (GrowRNA_update s) = backtracked s"
  "RNA_length (GrowRNA_update s) = RNA_length s + 1"
  "max_duplex_length (GrowRNA_update s) = max_duplex_length s"
  "iplus1_site (GrowRNA_update s) = iplus1_site s + 1"
  "scrunched_DNA_size (GrowRNA_update s) = scrunched_DNA_size s + 1"
  "RNADNA_duplex_length (GrowRNA_update s) =
     (if RNA_length s + 1 \<le> max_duplex_length s
      then RNA_length s + 1 else RNADNA_duplex_length s)"
  "free_5prime_RNA_length (GrowRNA_update s) =
     (if (if RNA_length s + 1 \<le> max_duplex_length s
          then RNA_length s + 1 else RNADNA_duplex_length s) = max_duplex_length s
      then free_5prime_RNA_length s + 1 else free_5prime_RNA_length s)"
  by (simp_all add: GrowRNA_update_def Let_def)

lemma modes_ok_GrowRNA_update: "modes_ok (GrowRNA_update s) = modes_ok s"
  by (simp add: modes_ok_unfold GrowRNA_update_sel)

lemma modes_ok_Backtrack_update:
  "modes_ok s \<Longrightarrow> paused s \<or> backtracked s \<Longrightarrow> modes_ok (Backtrack_update s)"
  by (auto simp add: modes_ok_unfold Backtrack_update_sel)

lemma modes_ok_CanGrow: "modes_ok s \<Longrightarrow> CanGrow s"
  by (auto simp add: modes_ok_unfold CanGrow_def)

lemma GrowRNA_eq:
  "GrowRNA s =
     (if \<not> (modes_ok s \<and> counts_ok s) then Inl AssertionError
      else if counts_ok (GrowRNA_update s) then Inr (GrowRNA_update s)
      else Inl AssertionError)"
  by (simp add: GrowRNA_def SanityCheck_cases checked_eq modes_ok_GrowRNA_update modes_ok_CanGrow)

lemma Backtrack_eq:
  "Backtrack s =
     (if \<not> (modes_ok s \<and> counts_ok s) then Inl AssertionError
      else if paused s \<or> backtracked s
           then (if counts_ok (Backtrack_update s) then Inr (Backtrack_update s)
                 else Inl AssertionError)
           else Inl ZeroDivisionError)"
  by (simp add: Backtrack_def CanBackTrack_def SanityCheck_cases checked_eq
      modes_ok_Backtrack_update)

text \<open>The facts that evaluate a run on a concrete object.\<close>

lemmas eval_defs = Translocate_eq ReverseTranslocate_eq Pause_eq Backtrack_eq GrowRNA_eq
  modes_ok_unfold counts_ok_def Backtrack_update_def GrowRNA_update_def iRNAP_default_def

lemma invariants_iff: "invariants s = (mode_count s = 1 \<and> counts_ok s)"
  by (simp add: invariants_def counts_ok_def)

lemma mode_count_one:
  "(mode_count s = 1) =
     ((pre_translocated s \<and> \<not> post_translocated s \<and> \<not> paused s \<and> \<not> backtracked s)
      \<or> (\<not> pre_translocated s \<and> post_translocated s \<and> \<not> paused s \<and> \<not> backtracked s)
      \<or> (\<not> pre_translocated s \<and> \<not> post_translocated s \<and> paused s \<and> \<not> backtracked s)
      \<or> (\<not> pre_translocated s \<and> \<not> post_translocated s \<and> \<not> paused s \<and> backtracked s))"
  by (cases "pre_translocated s"; cases "post_translocated s"; cases "paused s";
      cases "backtracked s"; simp add: mode_count_def)

lemma mode_count_Suc0:
  "(mode_count s = Suc 0) =
     ((pre_translocated s \<and> \<not> post_translocated s \<and> \<not> paused s \<and> \<not> backtracked s)
      \<or> (\<not> pre_translocated s \<and> post_translocated s \<and> \<not> paused s \<and> \<not> backtracked s)
      \<or> (\<not> pre_translocated s \<and> \<not> post_translocated s \<and> paused s \<and> \<not> backtracked s)
      \<or> (\<not> pre_translocated s \<and> \<not> post_translocated s \<and> \<not> paused s \<and> backtracked s))"
  using mode_count_one [of s] by simp

lemma invariants_SanityCheck: "invariants s \<Longrightarrow> SanityCheck s = Inr ()"
  by (simp add: invariants_iff SanityCheck_cases modes_ok_count)

section \<open>The saturation scenario\<close>

text \<open>
  Claim C1. From the default-constructed object, repeated \<open>GrowRNA\<close> should reach a duplex
  of 10 with a free 5' end of 1 in a call that completes, and go on from there.

  The code does not do that. Seven calls complete and leave an RNA and a duplex of 9.
  The eighth sets both to 10 and the free 5' end to 1, and its closing \<open>SanityCheck\<close>
  then raises: the free end is positive and is not the RNA length minus the duplex
  length, which is 0. No call after the seventh completes.
\<close>

theorem GrowRNA_raises_at_saturation:
  "iRNAP_init iRNAP_default = Inr iRNAP_default
   \<and> run (replicate 7 TGrowRNA) iRNAP_default
     = Inr (iRNAP_default\<lparr>RNA_length := 9, iplus1_site := 9, RNADNA_duplex_length := 9,
              scrunched_DNA_size := 7\<rparr>)
   \<and> GrowRNA_update (iRNAP_default\<lparr>RNA_length := 9, iplus1_site := 9,
              RNADNA_duplex_length := 9, scrunched_DNA_size := 7\<rparr>)
     = iRNAP_default\<lparr>RNA_length := 10, iplus1_site := 10, RNADNA_duplex_length := 10,
              scrunched_DNA_size := 8, free_5prime_RNA_length := 1\<rparr>
   \<and> SanityCheck (iRNAP_default\<lparr>RNA_length := 10, iplus1_site := 10,
              RNADNA_duplex_length := 10, scrunched_DNA_size := 8,
              free_5prime_RNA_length := 1\<rparr>) = Inl AssertionError
   \<and> run (replicate 8 TGrowRNA) iRNAP_default = Inl AssertionError"
  by (simp add: numeral_eq_Suc iRNAP_init_def checked_eq SanityCheck_cases GrowRNA_eq
      counts_ok_def modes_ok_unfold GrowRNA_update_def iRNAP_default_def)

section \<open>Preservation of the invariants\<close>

lemma step_enabled:
  assumes "invariants s" "enabled t s"
  shows "\<exists>s'. step t s = Inr s' \<and> invariants s'"
proof -
  from assms(1) have m: "mode_count s = 1" and c: "counts_ok s" and mo: "modes_ok s"
    by (simp_all add: invariants_iff modes_ok_count)
  show ?thesis
  proof (cases t)
    case TTranslocate
    with assms(2) m
    have "pre_translocated s" "\<not> post_translocated s" "\<not> paused s" "\<not> backtracked s"
      by (auto simp add: mode_count_Suc0)
    with TTranslocate mo c show ?thesis
      by (simp add: Translocate_eq invariants_iff mode_count_Suc0)
  next
    case TReverseTranslocate
    with assms(2) m
    have "\<not> pre_translocated s" "post_translocated s" "\<not> paused s" "\<not> backtracked s"
      by (auto simp add: mode_count_Suc0)
    with TReverseTranslocate mo c show ?thesis
      by (simp add: ReverseTranslocate_eq invariants_iff mode_count_Suc0)
  next
    case TPause
    with assms(2) m
    have "pre_translocated s" "\<not> post_translocated s" "\<not> paused s" "\<not> backtracked s"
      by (auto simp add: mode_count_Suc0)
    with TPause mo c show ?thesis
      by (simp add: Pause_eq invariants_iff mode_count_Suc0)
  next
    case TBacktrack
    with assms(2) have pb: "paused s \<or> backtracked s" and f: "free_5prime_RNA_length s = 0"
      by simp_all
    from c f have c': "counts_ok (Backtrack_update s)"
      by (simp add: counts_ok_def Backtrack_update_sel split: if_splits)
    from m pb have m': "mode_count (Backtrack_update s) = 1"
      by (auto simp add: mode_count_Suc0 Backtrack_update_sel)
    from TBacktrack mo c pb c' m' show ?thesis
      by (simp add: Backtrack_eq invariants_iff)
  next
    case TGrowRNA
    from c assms(2) TGrowRNA have c': "counts_ok (GrowRNA_update s)"
      by (auto simp add: counts_ok_def GrowRNA_update_sel split: if_splits)
    from m have m': "mode_count (GrowRNA_update s) = 1"
      by (simp add: mode_count_def GrowRNA_update_sel)
    from TGrowRNA mo c c' m' show ?thesis
      by (simp add: GrowRNA_eq invariants_iff)
  qed
qed

text \<open>
  Claim C2, as stated: from an object satisfying the six invariants, every transition
  called where its own legality test holds completes with the invariants intact.

  This fails on the code. From the default object, \<open>Pause\<close> is legal and completes;
  \<open>ReverseTranslocate\<close> is then legal (the object is not Pre-translocated), sets
  \<open>pre_translocated\<close> beside \<open>paused\<close>, and its closing \<open>SanityCheck\<close> raises.
\<close>

theorem legal_run_breaks_invariants:
  "invariants iRNAP_default
   \<and> invoked_when legal [TPause, TReverseTranslocate] iRNAP_default
   \<and> trace [TPause, TReverseTranslocate] iRNAP_default
       = [Inr (iRNAP_default\<lparr>paused := True, pre_translocated := False\<rparr>), Inl AssertionError]"
  by (simp add: invariants_def mode_count_def eval_defs)

text \<open>
  Claim C2, amended: from an object satisfying the six invariants, if every transition
  is called on an object where it is \<open>enabled\<close>, then every call completes and leaves an
  object satisfying the six invariants.
\<close>

theorem enabled_run_keeps_invariants:
  "invariants s \<Longrightarrow> invoked_when enabled ts s \<Longrightarrow>
   length (trace ts s) = length ts \<and> all_hold (trace ts s)"
proof (induction ts arbitrary: s)
  case Nil
  then show ?case by simp
next
  case (Cons t ts)
  from Cons.prems have en: "enabled t s" by simp
  with Cons.prems(1) obtain s' where s': "step t s = Inr s'" "invariants s'"
    using step_enabled by blast
  with Cons.prems(2) have "invoked_when enabled ts s'" by simp
  with Cons.IH s'(2) have "length (trace ts s') = length ts \<and> all_hold (trace ts s')" by blast
  with s' show ?case by simp
qed

theorem enabled_run_keeps_invariants_witness:
  "invariants iRNAP_default
   \<and> invoked_when enabled [TGrowRNA, TTranslocate, TReverseTranslocate, TPause, TBacktrack]
        iRNAP_default
   \<and> length (trace [TGrowRNA, TTranslocate, TReverseTranslocate, TPause, TBacktrack]
        iRNAP_default) = 5
   \<and> all_hold (trace [TGrowRNA, TTranslocate, TReverseTranslocate, TPause, TBacktrack]
        iRNAP_default)"
proof -
  have i: "invariants iRNAP_default"
    by (simp add: invariants_def mode_count_def iRNAP_default_def)
  have e: "invoked_when enabled [TGrowRNA, TTranslocate, TReverseTranslocate, TPause, TBacktrack]
      iRNAP_default"
    by (simp add: eval_defs)
  from enabled_run_keeps_invariants [OF i e] i e show ?thesis by simp
qed

section \<open>Active-site lookup\<close>

lemma GetActiveSiteNucleotide_always_raises:
  "GetActiveSiteNucleotide s its = Inl AttributeError"
  by (simp add: GetActiveSiteNucleotide_def call_sequence_query_def)

text \<open>
  Claim C3. \<open>GetActiveSiteNucleotide\<close> should return the second character of the
  dinucleotide. The code calls \<open>self.get_active_site_dinucleotide\<close>, a name the class
  does not define (the method is \<open>GetActiveSiteDinucleotide\<close>), so the call raises
  \<open>AttributeError\<close> on every object and every sequence. On the default object and \<open>ATG\<close>
  the dinucleotide is \<open>TG\<close> and the nucleotide lookup raises.
\<close>

theorem GetActiveSiteNucleotide_raises_AttributeError:
  "GetActiveSiteDinucleotide iRNAP_default ''ATG'' = Inr ''TG''
   \<and> GetActiveSiteNucleotide iRNAP_default ''ATG'' = Inl AttributeError"
  by (simp add: GetActiveSiteDinucleotide_def GetActiveSiteNucleotide_def
      call_sequence_query_def str_index_def iRNAP_default_def)

text \<open>
  Claim C7. On a sequence of fewer than \<open>iplus1_site + 1\<close> characters
  \<open>GetActiveSiteDinucleotide\<close> raises \<open>IndexError\<close>; it returns no string there.
\<close>

theorem GetActiveSiteDinucleotide_short_sequence:
  "int (length its) < iplus1_site s + 1 \<Longrightarrow> GetActiveSiteDinucleotide s its = Inl IndexError"
  by (auto simp add: GetActiveSiteDinucleotide_def str_index_def Let_def
      split: sum.splits if_splits)

theorem GetActiveSiteDinucleotide_short_sequence_witness:
  "int (length ''AT'') < iplus1_site iRNAP_default + 1
   \<and> GetActiveSiteDinucleotide iRNAP_default ''AT'' = Inl IndexError"
  using GetActiveSiteDinucleotide_short_sequence [of "''AT''" iRNAP_default]
  by (simp add: iRNAP_default_def)

text \<open>
  The bound on the length is what excludes a wrapped read. After \<open>Pause\<close> and two calls of
  \<open>Backtrack\<close> the default object has \<open>iplus1_site = 0\<close>; a sequence of two characters is
  then long enough, and the read at index -1 takes its last character.
\<close>

lemma GetActiveSiteDinucleotide_wraps_at_site_0:
  "run [TPause, TBacktrack, TBacktrack] iRNAP_default
     = Inr (iRNAP_default\<lparr>pre_translocated := False, backtracked := True, iplus1_site := 0,
              RNADNA_duplex_length := 0, scrunched_DNA_size := - 2\<rparr>)
   \<and> GetActiveSiteDinucleotide
        (iRNAP_default\<lparr>pre_translocated := False, backtracked := True, iplus1_site := 0,
              RNADNA_duplex_length := 0, scrunched_DNA_size := - 2\<rparr>) ''AT'' = Inr ''TA''"
  by (simp add: eval_defs GetActiveSiteDinucleotide_def str_index_def)

section \<open>ReverseTranslocate\<close>

text \<open>
  Claim C4, as stated: \<open>ReverseTranslocate\<close> succeeds from every valid object that is not
  Pre-translocated, Paused and Backtracked included.

  This fails on the code: the Paused object that \<open>Pause\<close> makes of the default one passes
  \<open>SanityCheck\<close> and is not Pre-translocated, and \<open>ReverseTranslocate\<close> raises on it.
\<close>

theorem ReverseTranslocate_raises_when_paused:
  "SanityCheck (iRNAP_default\<lparr>paused := True, pre_translocated := False\<rparr>) = Inr ()
   \<and> \<not> pre_translocated (iRNAP_default\<lparr>paused := True, pre_translocated := False\<rparr>)
   \<and> Pause iRNAP_default = Inr (iRNAP_default\<lparr>paused := True, pre_translocated := False\<rparr>)
   \<and> ReverseTranslocate (iRNAP_default\<lparr>paused := True, pre_translocated := False\<rparr>)
       = Inl AssertionError"
  by (simp add: SanityCheck_cases eval_defs)

text \<open>
  Claim C4, amended: on an object that passes \<open>SanityCheck\<close>, \<open>ReverseTranslocate\<close> raises
  \<open>ZeroDivisionError\<close> when the object is Pre-translocated, raises \<open>AssertionError\<close> when
  it is Paused or Backtracked, and otherwise succeeds by setting \<open>pre_translocated\<close> and
  clearing \<open>post_translocated\<close>; after a success the object passes \<open>SanityCheck\<close> and
  \<open>pre_translocated\<close> is its only flag.
\<close>

theorem ReverseTranslocate_outcome:
  "SanityCheck s = Inr () \<Longrightarrow>
   ReverseTranslocate s =
     (if pre_translocated s then Inl ZeroDivisionError
      else if paused s \<or> backtracked s then Inl AssertionError
      else Inr (s\<lparr>pre_translocated := True, post_translocated := False\<rparr>))
   \<and> (\<forall>s'. ReverseTranslocate s = Inr s' \<longrightarrow>
         pre_translocated s' \<and> \<not> post_translocated s' \<and> \<not> paused s' \<and> \<not> backtracked s'
         \<and> SanityCheck s' = Inr ())"
  by (auto simp add: ReverseTranslocate_eq SanityCheck_iff modes_ok_unfold split: if_splits)

theorem ReverseTranslocate_outcome_witness:
  "SanityCheck (iRNAP_default\<lparr>pre_translocated := False, post_translocated := True\<rparr>) = Inr ()
   \<and> ReverseTranslocate (iRNAP_default\<lparr>pre_translocated := False, post_translocated := True\<rparr>)
       = Inr iRNAP_default
   \<and> SanityCheck iRNAP_default = Inr ()
   \<and> ReverseTranslocate iRNAP_default = Inl ZeroDivisionError"
proof -
  have a: "SanityCheck (iRNAP_default\<lparr>pre_translocated := False, post_translocated := True\<rparr>)
      = Inr ()"
    by (simp add: SanityCheck_cases eval_defs)
  have b: "SanityCheck iRNAP_default = Inr ()"
    by (simp add: SanityCheck_cases eval_defs)
  from ReverseTranslocate_outcome [OF a] ReverseTranslocate_outcome [OF b] a b
  show ?thesis by (simp add: iRNAP_default_def)
qed

section \<open>The scrunched DNA\<close>

lemma step_scrunched:
  "step t s = Inr s' \<Longrightarrow>
   counts_ok s' \<and> scrunched_DNA_size s' - iplus1_site s' = scrunched_DNA_size s - iplus1_site s"
  by (cases t)
     (auto simp add: Translocate_eq ReverseTranslocate_eq Pause_eq Backtrack_eq GrowRNA_eq
        Backtrack_update_sel GrowRNA_update_sel split: if_splits)

lemma run_scrunched:
  "run ts s = Inr s' \<Longrightarrow>
   scrunched_DNA_size s' - iplus1_site s' = scrunched_DNA_size s - iplus1_site s
   \<and> (ts \<noteq> [] \<longrightarrow> counts_ok s')"
proof (induction ts arbitrary: s)
  case Nil
  then show ?case by simp
next
  case (Cons t ts)
  then obtain s1 where s1: "step t s = Inr s1" "run ts s1 = Inr s'"
    by (auto split: sum.splits)
  from step_scrunched [OF s1(1)] Cons.IH [OF s1(2)] show ?case
    by (cases ts) (use s1 in auto)
qed

lemma step_scrunched_sign:
  "step t s = Inr s' \<Longrightarrow> backtracked s \<or> 0 \<le> scrunched_DNA_size s \<Longrightarrow>
   backtracked s' \<or> 0 \<le> scrunched_DNA_size s'"
  by (cases t)
     (auto simp add: Translocate_eq ReverseTranslocate_eq Pause_eq Backtrack_eq GrowRNA_eq
        Backtrack_update_sel GrowRNA_update_sel split: if_splits)

lemma run_scrunched_sign:
  "run ts s = Inr s' \<Longrightarrow> backtracked s \<or> 0 \<le> scrunched_DNA_size s \<Longrightarrow>
   backtracked s' \<or> 0 \<le> scrunched_DNA_size s'"
proof (induction ts arbitrary: s)
  case Nil
  then show ?case by simp
next
  case (Cons t ts)
  then obtain s1 where s1: "step t s = Inr s1" "run ts s1 = Inr s'"
    by (auto split: sum.splits)
  from step_scrunched_sign [OF s1(1) Cons.prems(2)] Cons.IH [OF s1(2)] show ?case by blast
qed

text \<open>
  Claim C5, as stated: in every object reached from the default one by legal transitions,
  \<open>scrunched_DNA_size\<close> is non-negative.

  This fails on the code: \<open>Pause\<close> and then \<open>Backtrack\<close> are legal on the default object,
  both complete, and \<open>Backtrack\<close> takes \<open>scrunched_DNA_size\<close> from 0 to -1, in an
  object that is then Backtracked.
\<close>

theorem scrunched_DNA_size_negative:
  "invoked_when legal [TPause, TBacktrack] iRNAP_default
   \<and> run [TPause, TBacktrack] iRNAP_default
       = Inr (iRNAP_default\<lparr>pre_translocated := False, backtracked := True, iplus1_site := 1,
                RNADNA_duplex_length := 1, scrunched_DNA_size := - 1\<rparr>)
   \<and> scrunched_DNA_size (iRNAP_default\<lparr>pre_translocated := False, backtracked := True,
         iplus1_site := 1, RNADNA_duplex_length := 1, scrunched_DNA_size := - 1\<rparr>) < 0"
  by (simp add: eval_defs)

text \<open>
  Claim C5, amended: in every object reached from the default one by transitions that
  complete, \<open>scrunched_DNA_size\<close> is a non-negative integer unless the object is
  Backtracked; in every such object, Backtracked or not, it is below \<open>RNA_length\<close> and
  equal to \<open>iplus1_site - 2\<close>.
\<close>

theorem scrunched_DNA_size_reachable:
  "run ts iRNAP_default = Inr s \<Longrightarrow>
   (\<not> backtracked s \<longrightarrow> 0 \<le> scrunched_DNA_size s)
   \<and> scrunched_DNA_size s < RNA_length s \<and> scrunched_DNA_size s = iplus1_site s - 2"
proof -
  assume r: "run ts iRNAP_default = Inr s"
  from run_scrunched [OF r] have d: "scrunched_DNA_size s = iplus1_site s - 2"
    by (simp add: iRNAP_default_def)
  have "backtracked iRNAP_default \<or> 0 \<le> scrunched_DNA_size iRNAP_default"
    by (simp add: iRNAP_default_def)
  from run_scrunched_sign [OF r this]
  have lo: "\<not> backtracked s \<longrightarrow> 0 \<le> scrunched_DNA_size s"
    by blast
  have "scrunched_DNA_size s < RNA_length s"
  proof (cases ts)
    case Nil
    with r have "s = iRNAP_default" by simp
    then show ?thesis by (simp add: iRNAP_default_def)
  next
    case (Cons t ts')
    with run_scrunched [OF r] show ?thesis by (simp add: counts_ok_def)
  qed
  with d lo show ?thesis by simp
qed

theorem scrunched_DNA_size_reachable_witness:
  "run [TGrowRNA, TPause] iRNAP_default
       = Inr (iRNAP_default\<lparr>RNA_length := 3, iplus1_site := 3, RNADNA_duplex_length := 3,
                scrunched_DNA_size := 1, paused := True, pre_translocated := False\<rparr>)
   \<and> \<not> backtracked (iRNAP_default\<lparr>RNA_length := 3, iplus1_site := 3,
         RNADNA_duplex_length := 3, scrunched_DNA_size := 1, paused := True,
         pre_translocated := False\<rparr>)
   \<and> 0 \<le> scrunched_DNA_size (iRNAP_default\<lparr>RNA_length := 3, iplus1_site := 3,
         RNADNA_duplex_length := 3, scrunched_DNA_size := 1, paused := True,
         pre_translocated := False\<rparr>)
   \<and> run [TPause, TBacktrack] iRNAP_default
       = Inr (iRNAP_default\<lparr>pre_translocated := False, backtracked := True, iplus1_site := 1,
                RNADNA_duplex_length := 1, scrunched_DNA_size := - 1\<rparr>)
   \<and> scrunched_DNA_size (iRNAP_default\<lparr>pre_translocated := False, backtracked := True,
         iplus1_site := 1, RNADNA_duplex_length := 1, scrunched_DNA_size := - 1\<rparr>) = 1 - 2"
proof -
  have g: "run [TGrowRNA, TPause] iRNAP_default
       = Inr (iRNAP_default\<lparr>RNA_length := 3, iplus1_site := 3, RNADNA_duplex_length := 3,
                scrunched_DNA_size := 1, paused := True, pre_translocated := False\<rparr>)"
    by (simp add: eval_defs)
  have nb: "\<not> backtracked (iRNAP_default\<lparr>RNA_length := 3, iplus1_site := 3,
         RNADNA_duplex_length := 3, scrunched_DNA_size := 1, paused := True,
         pre_translocated := False\<rparr>)"
    by (simp add: iRNAP_default_def)
  have r: "run [TPause, TBacktrack] iRNAP_default
       = Inr (iRNAP_default\<lparr>pre_translocated := False, backtracked := True, iplus1_site := 1,
                RNADNA_duplex_length := 1, scrunched_DNA_size := - 1\<rparr>)"
    by (simp add: eval_defs)
  from scrunched_DNA_size_reachable [OF g] scrunched_DNA_size_reachable [OF r] g nb r
  show ?thesis by simp
qed

section \<open>CanGrow\<close>

text \<open>
  Claim C6. On every object with at most one mode flag set \<open>CanGrow\<close> returns true; an
  object that passes \<open>SanityCheck\<close> is such an object, so \<open>GrowRNA\<close> never takes its
  \<open>1/0\<close> branch on it.
\<close>

theorem CanGrow_under_mutual_exclusion:
  "(mode_count s \<le> 1 \<longrightarrow> CanGrow s)
   \<and> (SanityCheck s = Inr () \<longrightarrow>
        mode_count s \<le> 1 \<and> CanGrow s \<and> GrowRNA s \<noteq> Inl ZeroDivisionError)"
proof -
  have a: "mode_count s \<le> 1 \<Longrightarrow> CanGrow s"
    using modes_ok_count [of s] modes_ok_CanGrow [of s] by blast
  have b: "GrowRNA s \<noteq> Inl ZeroDivisionError"
    by (simp add: GrowRNA_eq)
  have c: "SanityCheck s = Inr () \<Longrightarrow> mode_count s \<le> 1"
    using SanityCheck_iff [of s "()"] modes_ok_count [of s] by blast
  from a b c show ?thesis by blast
qed

theorem CanGrow_under_mutual_exclusion_witness:
  "mode_count iRNAP_default \<le> 1 \<and> SanityCheck iRNAP_default = Inr ()
   \<and> CanGrow iRNAP_default \<and> GrowRNA iRNAP_default \<noteq> Inl ZeroDivisionError"
proof -
  have a: "mode_count iRNAP_default \<le> 1"
    by (simp add: mode_count_def iRNAP_default_def)
  have b: "SanityCheck iRNAP_default = Inr ()"
    by (simp add: SanityCheck_cases eval_defs)
  from CanGrow_under_mutual_exclusion [of iRNAP_default] a b show ?thesis by simp
qed

section \<open>Backtrack after growth and a pause\<close>

lemma run_append:
  "run (as @ bs) s = (case run as s of Inl e \<Rightarrow> Inl e | Inr s' \<Rightarrow> run bs s')"
  by (induction as arbitrary: s) (auto split: sum.splits)

lemma GrowRNA_no_stray:
  assumes "GrowRNA s = Inr s'"
  shows "no_stray_free_end s'"
proof -
  from assms have c: "counts_ok s" and c': "counts_ok (GrowRNA_update s)"
    and s': "s' = GrowRNA_update s"
    by (auto simp add: GrowRNA_eq split: if_splits)
  from c c' show ?thesis
    unfolding s' no_stray_free_end_def counts_ok_def
    by (auto simp add: GrowRNA_update_sel split: if_splits)
qed

lemma step_no_stray:
  assumes "step t s = Inr s'" "no_stray_free_end s"
  shows "no_stray_free_end s'"
proof (cases t)
  case TGrowRNA
  with assms(1) show ?thesis by (simp add: GrowRNA_no_stray)
next
  case TBacktrack
  with assms(1) show ?thesis
    by (auto simp add: Backtrack_eq no_stray_free_end_def Backtrack_update_sel split: if_splits)
next
  case TTranslocate
  with assms show ?thesis
    by (auto simp add: Translocate_eq no_stray_free_end_def split: if_splits)
next
  case TReverseTranslocate
  with assms show ?thesis
    by (auto simp add: ReverseTranslocate_eq no_stray_free_end_def split: if_splits)
next
  case TPause
  with assms show ?thesis
    by (auto simp add: Pause_eq no_stray_free_end_def split: if_splits)
qed

lemma run_no_stray:
  "run ts s = Inr s' \<Longrightarrow> no_stray_free_end s \<Longrightarrow> no_stray_free_end s'"
proof (induction ts arbitrary: s)
  case Nil
  then show ?case by simp
next
  case (Cons t ts)
  then obtain s1 where s1: "step t s = Inr s1" "run ts s1 = Inr s'"
    by (auto split: sum.splits)
  from step_no_stray [OF s1(1) Cons.prems(2)] Cons.IH [OF s1(2)] show ?case by blast
qed

lemma Backtrack_from_paused:
  assumes mo: "modes_ok s" and c: "counts_ok s" and p: "paused s"
    and d: "RNADNA_duplex_length s < max_duplex_length s"
    and f: "free_5prime_RNA_length s \<le> 0"
  shows "Backtrack s =
     Inr (s\<lparr>paused := False, backtracked := True, iplus1_site := iplus1_site s - 1,
            scrunched_DNA_size := scrunched_DNA_size s - 1,
            RNADNA_duplex_length := RNADNA_duplex_length s - 1\<rparr>)"
proof -
  from p d f have u: "Backtrack_update s =
      s\<lparr>paused := False, backtracked := True, iplus1_site := iplus1_site s - 1,
            scrunched_DNA_size := scrunched_DNA_size s - 1,
            RNADNA_duplex_length := RNADNA_duplex_length s - 1\<rparr>"
    by (simp add: Backtrack_update_def)
  from c d f have c': "counts_ok (Backtrack_update s)"
    by (simp add: counts_ok_def Backtrack_update_sel)
  from mo c p c' show ?thesis
    by (simp add: Backtrack_eq u [symmetric])
qed

text \<open>
  Claim C8. Let a run of transitions from any object contain a \<open>GrowRNA\<close> and end with a
  \<open>Pause\<close>, all of them completing, and let the duplex of the resulting object be shorter
  than the full duplex. Then the object is Paused, and \<open>Backtrack\<close> completes on it: it
  clears \<open>paused\<close>, sets \<open>backtracked\<close>, and takes exactly 1 from each of \<open>iplus1_site\<close>,
  \<open>scrunched_DNA_size\<close> and \<open>RNADNA_duplex_length\<close>, leaving every other field as it was.
\<close>

theorem Backtrack_after_GrowRNA_and_Pause:
  assumes r: "run (ts @ [TPause]) s0 = Inr s"
    and g: "TGrowRNA \<in> set ts"
    and d: "RNADNA_duplex_length s < max_duplex_length s"
  shows "paused s \<and> Backtrack s =
     Inr (s\<lparr>paused := False, backtracked := True, iplus1_site := iplus1_site s - 1,
            scrunched_DNA_size := scrunched_DNA_size s - 1,
            RNADNA_duplex_length := RNADNA_duplex_length s - 1\<rparr>)"
proof -
  from g obtain as bs where ts: "ts = as @ TGrowRNA # bs"
    by (auto dest: split_list)
  from r obtain s3 where s3: "run ts s0 = Inr s3" "Pause s3 = Inr s"
    by (auto simp add: run_append split: sum.splits)
  from s3(1) obtain s1 s2
    where s12: "run as s0 = Inr s1" "GrowRNA s1 = Inr s2" "run bs s2 = Inr s3"
    unfolding ts by (auto simp add: run_append split: sum.splits)
  from GrowRNA_no_stray [OF s12(2)] run_no_stray [OF s12(3)] have n: "no_stray_free_end s3"
    by blast
  from s3(2) have mo3: "modes_ok s3" and c3: "counts_ok s3" and pre3: "pre_translocated s3"
    and s: "s = s3\<lparr>paused := True, pre_translocated := False\<rparr>"
    by (auto simp add: Pause_eq split: if_splits)
  from mo3 pre3 have fl: "\<not> post_translocated s3" "\<not> paused s3" "\<not> backtracked s3"
    by (auto simp add: modes_ok_unfold)
  from fl have mo: "modes_ok s" by (simp add: s modes_ok_unfold)
  from c3 have c: "counts_ok s" by (simp add: s)
  have p: "paused s" by (simp add: s)
  from n fl d have f: "free_5prime_RNA_length s \<le> 0"
    by (auto simp add: no_stray_free_end_def s)
  from Backtrack_from_paused [OF mo c p d f] p show ?thesis by simp
qed

theorem Backtrack_after_GrowRNA_and_Pause_witness:
  "run ([TGrowRNA] @ [TPause]) iRNAP_default
     = Inr (iRNAP_default\<lparr>RNA_length := 3, iplus1_site := 3, RNADNA_duplex_length := 3,
              scrunched_DNA_size := 1, paused := True, pre_translocated := False\<rparr>)
   \<and> TGrowRNA \<in> set [TGrowRNA]
   \<and> Backtrack (iRNAP_default\<lparr>RNA_length := 3, iplus1_site := 3, RNADNA_duplex_length := 3,
              scrunched_DNA_size := 1, paused := True, pre_translocated := False\<rparr>)
     = Inr (iRNAP_default\<lparr>RNA_length := 3, iplus1_site := 2, RNADNA_duplex_length := 2,
              scrunched_DNA_size := 0, backtracked := True, pre_translocated := False\<rparr>)"
proof -
  have r: "run ([TGrowRNA] @ [TPause]) iRNAP_default
     = Inr (iRNAP_default\<lparr>RNA_length := 3, iplus1_site := 3, RNADNA_duplex_length := 3,
              scrunched_DNA_size := 1, paused := True, pre_translocated := False\<rparr>)"
    by (simp add: eval_defs)
  have g: "TGrowRNA \<in> set [TGrowRNA]" by simp
  have d: "RNADNA_duplex_length (iRNAP_default\<lparr>RNA_length := 3, iplus1_site := 3,
      RNADNA_duplex_length := 3, scrunched_DNA_size := 1, paused := True,
      pre_translocated := False\<rparr>)
    < max_duplex_length (iRNAP_default\<lparr>RNA_length := 3, iplus1_site := 3,
      RNADNA_duplex_length := 3, scrunched_DNA_size := 1, paused := True,
      pre_translocated := False\<rparr>)"
    by (simp add: iRNAP_default_def)
  from Backtrack_after_GrowRNA_and_Pause [OF r g d] r g show ?thesis
    by (simp add: iRNAP_default_def)
qed

section \<open>Translocate and ReverseTranslocate\<close>

text \<open>
  Claim C9. On every Pre-translocated object that passes \<open>SanityCheck\<close>, \<open>Translocate\<close>
  completes, \<open>ReverseTranslocate\<close> then completes, and the object is again the object the
  pair of calls started from: Pre-translocated, with every counter unchanged.
\<close>

theorem Translocate_then_ReverseTranslocate:
  "SanityCheck s = Inr () \<Longrightarrow> pre_translocated s \<Longrightarrow>
   Translocate s = Inr (s\<lparr>pre_translocated := False, post_translocated := True\<rparr>)
   \<and> ReverseTranslocate (s\<lparr>pre_translocated := False, post_translocated := True\<rparr>) = Inr s
   \<and> run [TTranslocate, TReverseTranslocate] s = Inr s"
proof -
  assume v: "SanityCheck s = Inr ()" and p: "pre_translocated s"
  from v have mo: "modes_ok s" and c: "counts_ok s"
    by (simp_all add: SanityCheck_iff)
  from mo p have f: "\<not> post_translocated s" "\<not> paused s" "\<not> backtracked s"
    by (auto simp add: modes_ok_unfold)
  from mo c f
  have t: "Translocate s = Inr (s\<lparr>pre_translocated := False, post_translocated := True\<rparr>)"
    by (simp add: Translocate_eq)
  from p f have same: "s\<lparr>pre_translocated := True, post_translocated := False\<rparr> = s"
    by simp
  from c f
  have r: "ReverseTranslocate (s\<lparr>pre_translocated := False, post_translocated := True\<rparr>)
      = Inr s"
    by (simp add: ReverseTranslocate_eq modes_ok_unfold same)
  from t r show ?thesis by simp
qed

theorem Translocate_then_ReverseTranslocate_witness:
  "SanityCheck iRNAP_default = Inr () \<and> pre_translocated iRNAP_default
   \<and> run [TTranslocate, TReverseTranslocate] iRNAP_default = Inr iRNAP_default"
proof -
  have a: "SanityCheck iRNAP_default = Inr ()"
    by (simp add: SanityCheck_cases eval_defs)
  have b: "pre_translocated iRNAP_default"
    by (simp add: iRNAP_default_def)
  from Translocate_then_ReverseTranslocate [OF a b] a b show ?thesis by simp
qed

section \<open>GrowRNA and the mode\<close>

lemma GrowRNA_update_flags:
  "GrowRNA_update (s\<lparr>pre_translocated := a, post_translocated := b, paused := c,
       backtracked := d\<rparr>)
   = (GrowRNA_update s)\<lparr>pre_translocated := a, post_translocated := b, paused := c,
       backtracked := d\<rparr>"
  by (simp add: GrowRNA_update_def Let_def)

lemma GrowRNA_enabled:
  assumes "SanityCheck s = Inr ()" "enabled TGrowRNA s"
  shows "GrowRNA s = Inr (GrowRNA_update s)"
proof -
  from assms(1) have mo: "modes_ok s" and c: "counts_ok s"
    by (simp_all add: SanityCheck_iff)
  from c assms(2) have c': "counts_ok (GrowRNA_update s)"
    by (auto simp add: counts_ok_def GrowRNA_update_sel split: if_splits)
  from mo c c' show ?thesis by (simp add: GrowRNA_eq)
qed

text \<open>
  Claim C10, as stated: \<open>GrowRNA\<close> changes no mode flag and succeeds from any valid
  object, whatever its mode.

  The success fails on the code. The object that seven calls of \<open>GrowRNA\<close> make of the
  default one passes \<open>SanityCheck\<close>, and \<open>GrowRNA\<close> raises on it (the saturation call of
  claim C1). So does \<open>GrowRNA\<close> on an object that passes \<open>SanityCheck\<close> with a free 5' end
  below the full duplex: it sets the duplex to the RNA length, and the free end is then
  no longer the overhang.
\<close>

theorem GrowRNA_raises_on_valid_objects:
  "run (replicate 7 TGrowRNA) iRNAP_default
     = Inr (iRNAP_default\<lparr>RNA_length := 9, iplus1_site := 9, RNADNA_duplex_length := 9,
              scrunched_DNA_size := 7\<rparr>)
   \<and> SanityCheck (iRNAP_default\<lparr>RNA_length := 9, iplus1_site := 9, RNADNA_duplex_length := 9,
              scrunched_DNA_size := 7\<rparr>) = Inr ()
   \<and> GrowRNA (iRNAP_default\<lparr>RNA_length := 9, iplus1_site := 9, RNADNA_duplex_length := 9,
              scrunched_DNA_size := 7\<rparr>) = Inl AssertionError
   \<and> SanityCheck (iRNAP_default\<lparr>RNA_length := 5, RNADNA_duplex_length := 3,
              free_5prime_RNA_length := 2\<rparr>) = Inr ()
   \<and> GrowRNA (iRNAP_default\<lparr>RNA_length := 5, RNADNA_duplex_length := 3,
              free_5prime_RNA_length := 2\<rparr>) = Inl AssertionError"
  by (simp add: numeral_eq_Suc SanityCheck_cases GrowRNA_eq
      counts_ok_def modes_ok_unfold GrowRNA_update_def iRNAP_default_def)

text \<open>
  Claim C10, amended: the assignments of \<open>GrowRNA\<close> change no mode flag, so the mode after
  a completed call is the mode before it; \<open>GrowRNA\<close> never takes its \<open>1/0\<close> branch; on an
  object that passes \<open>SanityCheck\<close> and whose counters allow growth (\<open>enabled TGrowRNA\<close>,
  which reads no flag) it completes in every mode; and for two objects that pass
  \<open>SanityCheck\<close> and differ in their flags only, the outcome is the same but for those
  flags.
\<close>

theorem GrowRNA_keeps_mode:
  "pre_translocated (GrowRNA_update s) = pre_translocated s
   \<and> post_translocated (GrowRNA_update s) = post_translocated s
   \<and> paused (GrowRNA_update s) = paused s
   \<and> backtracked (GrowRNA_update s) = backtracked s
   \<and> (\<forall>s'. GrowRNA s = Inr s' \<longrightarrow>
         pre_translocated s' = pre_translocated s \<and> post_translocated s' = post_translocated s
         \<and> paused s' = paused s \<and> backtracked s' = backtracked s)
   \<and> GrowRNA s \<noteq> Inl ZeroDivisionError
   \<and> (SanityCheck s = Inr () \<and> enabled TGrowRNA s \<longrightarrow> GrowRNA s = Inr (GrowRNA_update s))
   \<and> (SanityCheck s = Inr ()
       \<and> SanityCheck (s\<lparr>pre_translocated := a, post_translocated := b, paused := c,
            backtracked := d\<rparr>) = Inr ()
      \<longrightarrow> GrowRNA (s\<lparr>pre_translocated := a, post_translocated := b, paused := c,
            backtracked := d\<rparr>)
          = (case GrowRNA s of
               Inl e \<Rightarrow> Inl e
             | Inr s' \<Rightarrow> Inr (s'\<lparr>pre_translocated := a, post_translocated := b, paused := c,
                 backtracked := d\<rparr>)))"
proof -
  have frame: "\<forall>s'. GrowRNA s = Inr s' \<longrightarrow>
         pre_translocated s' = pre_translocated s \<and> post_translocated s' = post_translocated s
         \<and> paused s' = paused s \<and> backtracked s' = backtracked s"
    by (auto simp add: GrowRNA_eq GrowRNA_update_sel split: if_splits)
  have nz: "GrowRNA s \<noteq> Inl ZeroDivisionError"
    by (simp add: GrowRNA_eq)
  have indep: "GrowRNA (s\<lparr>pre_translocated := a, post_translocated := b, paused := c,
            backtracked := d\<rparr>)
          = (case GrowRNA s of
               Inl e \<Rightarrow> Inl e
             | Inr s' \<Rightarrow> Inr (s'\<lparr>pre_translocated := a, post_translocated := b, paused := c,
                 backtracked := d\<rparr>))"
    if "SanityCheck s = Inr ()" "SanityCheck (s\<lparr>pre_translocated := a, post_translocated := b,
        paused := c, backtracked := d\<rparr>) = Inr ()"
    using that by (simp add: SanityCheck_iff GrowRNA_eq GrowRNA_update_flags)
  from frame nz indep GrowRNA_enabled [of s] show ?thesis
    by (simp add: GrowRNA_update_sel)
qed

theorem GrowRNA_keeps_mode_witness:
  "SanityCheck iRNAP_default = Inr () \<and> enabled TGrowRNA iRNAP_default
   \<and> pre_translocated iRNAP_default
   \<and> GrowRNA iRNAP_default
       = Inr (iRNAP_default\<lparr>iplus1_site := 3, RNA_length := 3, scrunched_DNA_size := 1,
                RNADNA_duplex_length := 3\<rparr>)
   \<and> SanityCheck (iRNAP_default\<lparr>pre_translocated := False, post_translocated := False,
        paused := True, backtracked := False\<rparr>) = Inr ()
   \<and> GrowRNA (iRNAP_default\<lparr>pre_translocated := False, post_translocated := False,
        paused := True, backtracked := False\<rparr>)
       = Inr (iRNAP_default\<lparr>iplus1_site := 3, RNA_length := 3, scrunched_DNA_size := 1,
                RNADNA_duplex_length := 3, pre_translocated := False, post_translocated := False,
                paused := True, backtracked := False\<rparr>)"
proof -
  have a: "SanityCheck iRNAP_default = Inr ()"
    by (simp add: SanityCheck_cases eval_defs)
  have b: "enabled TGrowRNA iRNAP_default"
    by (simp add: iRNAP_default_def)
  have c: "SanityCheck (iRNAP_default\<lparr>pre_translocated := False, post_translocated := False,
        paused := True, backtracked := False\<rparr>) = Inr ()"
    by (simp add: SanityCheck_cases eval_defs)
  have u: "GrowRNA_update iRNAP_default
       = iRNAP_default\<lparr>iplus1_site := 3, RNA_length := 3, scrunched_DNA_size := 1,
                RNADNA_duplex_length := 3\<rparr>"
    by (simp add: GrowRNA_update_def iRNAP_default_def)
  from GrowRNA_keeps_mode
    [where s = iRNAP_default and a = False and b = False and c = True and d = False] a b c u
  show ?thesis
    by (simp add: iRNAP_default_def)
qed

end
